theory Spec2Isabelle
  imports Main "HOL-Library.Sublist" "HOL-Library.Word"
begin

section \<open>Values exchanged with the server\<close>

text \<open>
  The client of \<^verbatim>\<open>examples/list_environments_demo.py\<close> handles untyped Python values
  obtained from \<^verbatim>\<open>response.json()\<close>. They are modelled as a datatype of JSON values.
  Python's \<^verbatim>\<open>None\<close> is \<open>JNull\<close>, Python's unbounded integers are \<open>int\<close>, a float is kept
  as its IEEE-754 bit pattern (the client never computes with one), and a \<^verbatim>\<open>dict\<close> is an
  association list in insertion order whose keys are distinct in every value a Python
  program can build; lookup takes the binding of the key.
\<close>

datatype json =
    JNull
  | JBool bool
  | JInt int
  | JFloat "64 word"
  | JStr string
  | JArr "json list"
  | JObj "(string \<times> json) list"

type_synonym dict = "(string \<times> json) list"

text \<open>
  A message built by an f-string: literal text and interpolated values. Python's
  \<^verbatim>\<open>str()\<close> of an interpolated dict is left uninterpreted.
\<close>

datatype fpart = Lit string | Fmt json

text \<open>
  The exceptions that can leave the client, one constructor per class raised:
  \<^item> \<open>ConnectionError\<close>: an instance of \<^verbatim>\<open>requests.exceptions.ConnectionError\<close>, raised by
    \<^verbatim>\<open>requests.post\<close> when the connection cannot be established;
  \<^item> \<open>RequestException\<close>: any other exception raised by \<^verbatim>\<open>requests.post\<close>, an instance of
    the HTTP library's \<^verbatim>\<open>RequestException\<close> that is not a \<^verbatim>\<open>ConnectionError\<close>;
  \<^item> \<open>HTTPError\<close>: raised by \<^verbatim>\<open>raise_for_status()\<close>, with the status code;
  \<^item> \<open>JSONDecodeError\<close>: raised by \<^verbatim>\<open>response.json()\<close> on a body that is not JSON;
  \<^item> \<open>PyException\<close>: the plain \<^verbatim>\<open>Exception\<close> of \<^verbatim>\<open>call_tool\<close>, with its message;
  \<^item> \<open>ValueError\<close>: raised by \<^verbatim>\<open>get_environment_info\<close>, with its message;
  \<^item> \<open>KeyError\<close>, \<open>TypeError\<close>, \<open>AttributeError\<close>: raised by Python itself when a
    response has not the expected shape.
\<close>

datatype error =
    ConnectionError
  | RequestException
  | HTTPError nat
  | JSONDecodeError
  | PyException "fpart list"
  | ValueError string
  | KeyError string
  | TypeError
  | AttributeError

subsection \<open>Python operations on untyped values\<close>

text \<open>\<^verbatim>\<open>x[key]\<close> with a string key.\<close>

fun subscript :: "json \<Rightarrow> string \<Rightarrow> error + json" where
  "subscript (JObj kvs) key =
     (case map_of kvs key of None \<Rightarrow> Inl (KeyError key) | Some v \<Rightarrow> Inr v)"
| "subscript _ key = Inl TypeError"

text \<open>\<^verbatim>\<open>key in x\<close> with a string key: a key of a dict, an element of a list, a
  substring of a string; other values are not iterable.\<close>

fun contains :: "string \<Rightarrow> json \<Rightarrow> error + bool" where
  "contains key (JObj kvs) = Inr (map_of kvs key \<noteq> None)"
| "contains key (JArr xs) = Inr (JStr key \<in> set xs)"
| "contains key (JStr s) = Inr (sublist key s)"
| "contains key _ = Inl TypeError"

text \<open>\<^verbatim>\<open>x.get(key)\<close>: only a dict has the method; a missing key gives \<^verbatim>\<open>None\<close>.\<close>

fun dict_get :: "json \<Rightarrow> string \<Rightarrow> error + json" where
  "dict_get (JObj kvs) key =
     Inr (case map_of kvs key of None \<Rightarrow> JNull | Some v \<Rightarrow> v)"
| "dict_get _ key = Inl AttributeError"

text \<open>\<^verbatim>\<open>for env in x\<close>: the elements of a list, the keys of a dict, the characters of
  a string; other values are not iterable.\<close>

fun iterate :: "json \<Rightarrow> error + json list" where
  "iterate (JArr xs) = Inr xs"
| "iterate (JObj kvs) = Inr (map (\<lambda>kv. JStr (fst kv)) kvs)"
| "iterate (JStr s) = Inr (map (\<lambda>ch. JStr [ch]) s)"
| "iterate _ = Inl TypeError"

text \<open>\<^verbatim>\<open>d or {}\<close> for an optional dict argument: \<^verbatim>\<open>None\<close> and the empty dict are falsy.\<close>

definition or_empty :: "dict option \<Rightarrow> dict" where
  "or_empty d = (case d of None \<Rightarrow> [] | Some kvs \<Rightarrow> if kvs = [] then [] else kvs)"

section \<open>The HTTP exchange\<close>

text \<open>
  What the client passes to \<^verbatim>\<open>requests.post\<close> and what comes back. The network and
  the server are outside the program: an exchange is a function from the request to its
  outcome: \<open>Unreachable\<close> when \<^verbatim>\<open>requests.post\<close> raises its \<^verbatim>\<open>ConnectionError\<close>,
  \<open>Failed\<close> when it raises another of its exceptions, and otherwise the response. A
  response carries its status code and its body as parsed by \<^verbatim>\<open>response.json()\<close>,
  \<open>None\<close> when the body is not JSON.
\<close>

record http_request =
  url :: string
  headers :: "(string \<times> string) list"
  json_body :: json

datatype http_outcome =
    Unreachable
  | Failed
  | Response nat "json option"

type_synonym exchange = "http_request \<Rightarrow> http_outcome"

text \<open>\<^verbatim>\<open>response.raise_for_status()\<close> raises for the statuses 400 to 599.\<close>

definition raise_for_status :: "nat \<Rightarrow> error + unit" where
  "raise_for_status status =
     (if 400 \<le> status \<and> status < 600 then Inl (HTTPError status) else Inr ())"

section \<open>The client\<close>

record client =
  server_url :: string
  request_id :: int

text \<open>
  Every operation returns what the Python method returns or raises, the client as the
  method leaves it, and the request it has posted.
\<close>

type_synonym 'a effect = "(error + 'a) \<times> client \<times> http_request"

definition returned :: "'a effect \<Rightarrow> error + 'a" where
  "returned r = fst r"

definition client_after :: "'a effect \<Rightarrow> client" where
  "client_after r = fst (snd r)"

definition sent :: "'a effect \<Rightarrow> http_request" where
  "sent r = snd (snd r)"

definition init :: "string \<Rightarrow> client" where
  "init u = \<lparr>server_url = u, request_id = 0\<rparr>"

definition default_server_url :: string where
  "default_server_url = ''http://localhost:8080/mcp''"

definition make_request :: "exchange \<Rightarrow> client \<Rightarrow> string \<Rightarrow> dict option \<Rightarrow> json effect" where
  "make_request post c method params =
     (let c' = c\<lparr>request_id := request_id c + 1\<rparr>;
          payload = JObj [(''jsonrpc'', JStr ''2.0''),
                          (''id'', JInt (request_id c')),
                          (''method'', JStr method),
                          (''params'', JObj (or_empty params))];
          req = \<lparr>url = server_url c',
                 headers = [(''Content-Type'', ''application/json'')],
                 json_body = payload\<rparr>
      in (case post req of
            Unreachable \<Rightarrow> Inl ConnectionError
          | Failed \<Rightarrow> Inl RequestException
          | Response status body \<Rightarrow>
              (case raise_for_status status of
                 Inl e \<Rightarrow> Inl e
               | Inr _ \<Rightarrow> (case body of None \<Rightarrow> Inl JSONDecodeError | Some v \<Rightarrow> Inr v)),
          c', req))"

text \<open>Lines 45 to 48: the interpretation of the parsed response.\<close>

definition unwrap :: "json \<Rightarrow> error + json" where
  "unwrap result =
     (case contains ''error'' result of
        Inl e \<Rightarrow> Inl e
      | Inr True \<Rightarrow>
          (case subscript result ''error'' of
             Inl e \<Rightarrow> Inl e
           | Inr payload \<Rightarrow> Inl (PyException [Lit ''MCP Error: '', Fmt payload]))
      | Inr False \<Rightarrow> dict_get result ''result'')"

definition call_tool :: "exchange \<Rightarrow> client \<Rightarrow> string \<Rightarrow> dict option \<Rightarrow> json effect" where
  "call_tool post c tool_name arguments =
     (let params = [(''name'', JStr tool_name),
                    (''arguments'', JObj (or_empty arguments))];
          (r, c', req) = make_request post c ''tools/call'' (Some params)
      in (case r of Inl e \<Rightarrow> Inl e | Inr result \<Rightarrow> unwrap result, c', req))"

definition list_environments :: "exchange \<Rightarrow> client \<Rightarrow> bool \<Rightarrow> json effect" where
  "list_environments post c include_disabled =
     call_tool post c ''list_environments''
       (Some [(''include_disabled'', JBool include_disabled)])"

text \<open>The list comprehension \<^verbatim>\<open>[env["name"] for env in ...]\<close>.\<close>

fun names_of :: "json list \<Rightarrow> error + json list" where
  "names_of [] = Inr []"
| "names_of (env # rest) =
     (case subscript env ''name'' of
        Inl e \<Rightarrow> Inl e
      | Inr v \<Rightarrow> (case names_of rest of Inl e \<Rightarrow> Inl e | Inr vs \<Rightarrow> Inr (v # vs)))"

definition get_environment_names :: "exchange \<Rightarrow> client \<Rightarrow> bool \<Rightarrow> json list effect" where
  "get_environment_names post c include_disabled =
     (let (r, c', req) = list_environments post c include_disabled
      in (case r of
            Inl e \<Rightarrow> Inl e
          | Inr result \<Rightarrow>
              (case subscript result ''environments'' of
                 Inl e \<Rightarrow> Inl e
               | Inr envs \<Rightarrow> (case iterate envs of Inl e \<Rightarrow> Inl e | Inr xs \<Rightarrow> names_of xs)),
          c', req))"

definition get_default_environment :: "exchange \<Rightarrow> client \<Rightarrow> json effect" where
  "get_default_environment post c =
     (let (r, c', req) = list_environments post c False
      in (case r of
            Inl e \<Rightarrow> Inl e
          | Inr result \<Rightarrow> subscript result ''default_environment'',
          c', req))"

definition not_found :: "string \<Rightarrow> string" where
  "not_found env_name = ''Environment '' @ [CHR 0x27] @ env_name @ [CHR 0x27] @ '' not found''"

text \<open>The loop of lines 70 to 74: the first descriptor whose name equals the argument,
  a \<^verbatim>\<open>ValueError\<close> once the listing is exhausted.\<close>

fun find_env :: "json list \<Rightarrow> string \<Rightarrow> error + json" where
  "find_env [] env_name = Inl (ValueError (not_found env_name))"
| "find_env (env # rest) env_name =
     (case subscript env ''name'' of
        Inl e \<Rightarrow> Inl e
      | Inr v \<Rightarrow> if v = JStr env_name then Inr env else find_env rest env_name)"

definition get_environment_info :: "exchange \<Rightarrow> client \<Rightarrow> string \<Rightarrow> json effect" where
  "get_environment_info post c env_name =
     (let (r, c', req) = list_environments post c True
      in (case r of
            Inl e \<Rightarrow> Inl e
          | Inr result \<Rightarrow>
              (case subscript result ''environments'' of
                 Inl e \<Rightarrow> Inl e
               | Inr envs \<Rightarrow>
                   (case iterate envs of Inl e \<Rightarrow> Inl e | Inr xs \<Rightarrow> find_env xs env_name)),
          c', req))"



section \<open>Notions of the specification\<close>

text \<open>
  A sequence of calls of \<^verbatim>\<open>_make_request\<close> on one client, each with its own method,
  parameters and exchange; the result is the list of the requests posted, in order. The
  client is kept after a call that raises, as the Python object is.
\<close>

fun make_requests :: "client \<Rightarrow> (exchange \<times> string \<times> dict option) list \<Rightarrow> http_request list" where
  "make_requests c [] = []"
| "make_requests c (call # calls) =
     (let r = make_request (fst call) c (fst (snd call)) (snd (snd call))
      in sent r # make_requests (client_after r) calls)"

text \<open>The \<^verbatim>\<open>id\<close> member of a posted request envelope.\<close>

fun sent_id :: "http_request \<Rightarrow> int option" where
  "sent_id req =
     (case json_body req of
        JObj kvs \<Rightarrow> (case map_of kvs ''id'' of Some (JInt i) \<Rightarrow> Some i | _ \<Rightarrow> None)
      | _ \<Rightarrow> None)"

text \<open>
  A successful HTTP exchange: a response whose status \<^verbatim>\<open>raise_for_status\<close> accepts and
  whose body parses to an envelope, a JSON object.
\<close>

fun envelope_of :: "http_outcome \<Rightarrow> dict option" where
  "envelope_of (Response status (Some (JObj kvs))) =
     (if 400 \<le> status \<and> status < 600 then None else Some kvs)"
| "envelope_of _ = None"

text \<open>A successful exchange whose envelope has no \<^verbatim>\<open>error\<close> member and the given
  \<^verbatim>\<open>result\<close> member.\<close>

definition delivers :: "http_outcome \<Rightarrow> json \<Rightarrow> bool" where
  "delivers out result =
     (case envelope_of out of
        None \<Rightarrow> False
      | Some kvs \<Rightarrow> map_of kvs ''error'' = None \<and> map_of kvs ''result'' = Some result)"

text \<open>
  The Environment Listing of the data model: an object whose \<^verbatim>\<open>environments\<close> member is
  a sequence of descriptors, each an object with a \<^verbatim>\<open>name\<close> member.
\<close>

fun name_of :: "json \<Rightarrow> json option" where
  "name_of (JObj kvs) = map_of kvs ''name''"
| "name_of _ = None"

fun environments_of :: "json \<Rightarrow> json list option" where
  "environments_of (JObj kvs) =
     (case map_of kvs ''environments'' of
        Some (JArr envs) \<Rightarrow> (if list_all (\<lambda>env. name_of env \<noteq> None) envs then Some envs else None)
      | _ \<Rightarrow> None)"
| "environments_of _ = None"


text \<open>The four failure kinds of the specification, read off the class of the exception.\<close>

datatype failure_kind = ConnectionFailure | TransportFailure | ProtocolError | NotFoundError

fun kind_of :: "error \<Rightarrow> failure_kind option" where
  "kind_of ConnectionError = Some ConnectionFailure"
| "kind_of RequestException = Some TransportFailure"
| "kind_of (HTTPError status) = Some TransportFailure"
| "kind_of JSONDecodeError = Some TransportFailure"
| "kind_of (PyException msg) = Some ProtocolError"
| "kind_of (ValueError msg) = Some NotFoundError"
| "kind_of _ = None"

fun failure_of :: "error + 'a \<Rightarrow> failure_kind option" where
  "failure_of (Inl e) = kind_of e"
| "failure_of (Inr v) = None"

subsection \<open>A stub server\<close>

text \<open>
  The scenarios of the specification run the client against a stub server. The stub
  answers every request with status 200 and a success envelope around a fixed result.
  The full listing has two enabled environments and a disabled one, described in the
  JSON shape of the wire protocol.
\<close>

definition stub :: "json \<Rightarrow> exchange" where
  "stub result req =
     Response 200 (Some (JObj [(''jsonrpc'', JStr ''2.0''), (''id'', JInt 1), (''result'', result)]))"

definition descriptor :: "string \<Rightarrow> string \<Rightarrow> bool \<Rightarrow> json" where
  "descriptor name status is_default =
     JObj [(''name'', JStr name),
           (''description'', JStr (name @ '' database'')),
           (''status'', JStr status),
           (''is_default'', JBool is_default),
           (''connection_info'',
            JObj [(''host'', JStr ''localhost''), (''port'', JInt 3306),
                  (''database'', JStr name), (''username'', JStr ''app'')]),
           (''pool_config'',
            JObj [(''min_connections'', JInt 1), (''max_connections'', JInt 10)])]"

definition full_listing :: json where
  "full_listing =
     JObj [(''environments'',
            JArr [descriptor ''dev'' ''enabled'' False,
                  descriptor ''prod'' ''enabled'' True,
                  descriptor ''uat'' ''disabled'' False]),
           (''total_count'', JInt 3),
           (''default_environment'', JStr ''prod'')]"


subsection \<open>Failures of the operations\<close>

text \<open>
  The failure conditions of the transport in the specification: what the HTTP exchange
  itself raises, before any envelope is looked at. An unreachable server raises the
  connection error; another exception of the HTTP library, a failure status and a body
  that is not JSON are the transport failures.
\<close>

fun exchange_failure :: "http_outcome \<Rightarrow> error option" where
  "exchange_failure Unreachable = Some ConnectionError"
| "exchange_failure Failed = Some RequestException"
| "exchange_failure (Response status body) =
     (if 400 \<le> status \<and> status < 600 then Some (HTTPError status)
      else (case body of None \<Rightarrow> Some JSONDecodeError | Some v \<Rightarrow> None))"








section \<open>Effects of the operations\<close>

lemma make_request_client_after:
  "client_after (make_request post c method params) = c\<lparr>request_id := request_id c + 1\<rparr>"
  by (simp add: make_request_def client_after_def Let_def)

lemma make_request_sent:
  "sent (make_request post c method params) =
     \<lparr>url = server_url c,
      headers = [(''Content-Type'', ''application/json'')],
      json_body = JObj [(''jsonrpc'', JStr ''2.0''),
                        (''id'', JInt (request_id c + 1)),
                        (''method'', JStr method),
                        (''params'', JObj (or_empty params))]\<rparr>"
  by (simp add: make_request_def sent_def Let_def)

lemma make_request_returned:
  "returned (make_request post c method params) =
     (case post (sent (make_request post c method params)) of
        Unreachable \<Rightarrow> Inl ConnectionError
      | Failed \<Rightarrow> Inl RequestException
      | Response status body \<Rightarrow>
          (if 400 \<le> status \<and> status < 600 then Inl (HTTPError status)
           else (case body of None \<Rightarrow> Inl JSONDecodeError | Some v \<Rightarrow> Inr v)))"
  by (auto simp add: make_request_def sent_def returned_def Let_def raise_for_status_def
      split: http_outcome.splits)

lemma call_tool_client_after:
  "client_after (call_tool post c tool_name arguments) = c\<lparr>request_id := request_id c + 1\<rparr>"
  using make_request_client_after [of post c]
  by (simp add: call_tool_def client_after_def Let_def case_prod_beta)

lemma call_tool_sent:
  "sent (call_tool post c tool_name arguments) =
     sent (make_request post c ''tools/call''
       (Some [(''name'', JStr tool_name), (''arguments'', JObj (or_empty arguments))]))"
  by (simp add: call_tool_def sent_def Let_def case_prod_beta)

lemma call_tool_returned:
  "returned (call_tool post c tool_name arguments) =
     (case returned (make_request post c ''tools/call''
             (Some [(''name'', JStr tool_name), (''arguments'', JObj (or_empty arguments))])) of
        Inl e \<Rightarrow> Inl e
      | Inr result \<Rightarrow> unwrap result)"
  by (simp add: call_tool_def returned_def Let_def case_prod_beta)

lemma list_environments_client_after:
  "client_after (list_environments post c b) = c\<lparr>request_id := request_id c + 1\<rparr>"
  by (simp add: list_environments_def call_tool_client_after)

lemma get_environment_names_client_after:
  "client_after (get_environment_names post c b) = c\<lparr>request_id := request_id c + 1\<rparr>"
  using list_environments_client_after [of post c b]
  by (simp add: get_environment_names_def client_after_def case_prod_beta)

lemma get_default_environment_client_after:
  "client_after (get_default_environment post c) = c\<lparr>request_id := request_id c + 1\<rparr>"
  using list_environments_client_after [of post c False]
  by (simp add: get_default_environment_def client_after_def case_prod_beta)

lemma get_environment_info_client_after:
  "client_after (get_environment_info post c env_name) = c\<lparr>request_id := request_id c + 1\<rparr>"
  using list_environments_client_after [of post c True]
  by (simp add: get_environment_info_def client_after_def case_prod_beta)

lemma get_environment_names_sent:
  "sent (get_environment_names post c b) = sent (list_environments post c b)"
  by (simp add: get_environment_names_def sent_def case_prod_beta)


lemma get_environment_info_sent:
  "sent (get_environment_info post c env_name) = sent (list_environments post c True)"
  by (simp add: get_environment_info_def sent_def case_prod_beta)

lemma get_environment_names_returned:
  "returned (get_environment_names post c b) =
     (case returned (list_environments post c b) of
        Inl e \<Rightarrow> Inl e
      | Inr result \<Rightarrow>
          (case subscript result ''environments'' of
             Inl e \<Rightarrow> Inl e
           | Inr envs \<Rightarrow> (case iterate envs of Inl e \<Rightarrow> Inl e | Inr xs \<Rightarrow> names_of xs)))"
  by (simp add: get_environment_names_def returned_def case_prod_beta)

lemma get_environment_info_returned:
  "returned (get_environment_info post c env_name) =
     (case returned (list_environments post c True) of
        Inl e \<Rightarrow> Inl e
      | Inr result \<Rightarrow>
          (case subscript result ''environments'' of
             Inl e \<Rightarrow> Inl e
           | Inr envs \<Rightarrow>
               (case iterate envs of Inl e \<Rightarrow> Inl e | Inr xs \<Rightarrow> find_env xs env_name)))"
  by (simp add: get_environment_info_def returned_def case_prod_beta)



lemma unwrap_envelope:
  "unwrap (JObj kvs) =
     (case map_of kvs ''error'' of
        Some payload \<Rightarrow> Inl (PyException [Lit ''MCP Error: '', Fmt payload])
      | None \<Rightarrow> Inr (case map_of kvs ''result'' of None \<Rightarrow> JNull | Some v \<Rightarrow> v))"
  by (simp add: unwrap_def split: option.splits)

lemma call_tool_envelope_of:
  assumes "envelope_of (post (sent (call_tool post c tool_name arguments))) = Some kvs"
  shows "returned (call_tool post c tool_name arguments) = unwrap (JObj kvs)"
proof -
  let ?req = "sent (call_tool post c tool_name arguments)"
  obtain status where out: "post ?req = Response status (Some (JObj kvs))"
    and ok: "\<not> (400 \<le> status \<and> status < 600)"
    using assms by (cases "post ?req" rule: envelope_of.cases) (auto split: if_splits)
  show ?thesis
    using out ok by (auto simp add: call_tool_returned make_request_returned call_tool_sent)
qed

lemma call_tool_delivers:
  assumes "delivers (post (sent (call_tool post c tool_name arguments))) result"
  shows "returned (call_tool post c tool_name arguments) = Inr result"
proof -
  from assms obtain kvs where
    env: "envelope_of (post (sent (call_tool post c tool_name arguments))) = Some kvs"
    and "map_of kvs ''error'' = None" "map_of kvs ''result'' = Some result"
    by (auto simp add: delivers_def split: option.splits)
  then show ?thesis
    using call_tool_envelope_of [of post c tool_name arguments kvs]
    by (simp add: unwrap_envelope)
qed

lemma list_environments_delivers:
  assumes "delivers (post (sent (list_environments post c b))) result"
  shows "returned (list_environments post c b) = Inr result"
  using assms call_tool_delivers [of post c "''list_environments''"
      "Some [(''include_disabled'', JBool b)]" result]
  by (simp add: list_environments_def)

lemma environments_ofD:
  assumes "environments_of listing = Some envs"
  shows "subscript listing ''environments'' = Inr (JArr envs)"
    and "list_all (\<lambda>env. name_of env \<noteq> None) envs"
  using assms
  by (cases listing rule: environments_of.cases; auto split: option.splits json.splits if_splits)+

lemma subscript_name:
  "name_of env = Some v \<Longrightarrow> subscript env ''name'' = Inr v"
  by (cases env rule: name_of.cases) auto

lemma names_of_named:
  "list_all (\<lambda>env. name_of env \<noteq> None) envs \<Longrightarrow>
   names_of envs = Inr (map (\<lambda>env. the (name_of env)) envs)"
  by (induction envs) (auto simp add: subscript_name)

lemma find_env_named:
  "list_all (\<lambda>env. name_of env \<noteq> None) envs \<Longrightarrow>
   find_env envs env_name =
     (case find (\<lambda>env. name_of env = Some (JStr env_name)) envs of
        None \<Rightarrow> Inl (ValueError (not_found env_name))
      | Some env \<Rightarrow> Inr env)"
  by (induction envs) (auto simp add: subscript_name)

lemma sent_id_make_request:
  "sent_id (sent (make_request post c method params)) = Some (request_id c + 1)"
  by (simp add: make_request_sent)

lemma make_requests_ids:
  "map sent_id (make_requests c calls) =
     map (\<lambda>k. Some (request_id c + 1 + int k)) [0..<length calls]"
proof (induction calls arbitrary: c)
  case Nil
  show ?case by simp
next
  case (Cons call calls)
  have "map (\<lambda>k. Some (request_id c + 1 + int k)) [0..<length (call # calls)] =
        Some (request_id c + 1) #
        map (\<lambda>k. Some (request_id c + 1 + 1 + int k)) [0..<length calls]"
    by (simp add: upt_conv_Cons map_Suc_upt [symmetric] del: upt_Suc)
  then show ?case
    using Cons.IH [of "c\<lparr>request_id := request_id c + 1\<rparr>"]
    by (simp add: Let_def make_request_client_after sent_id_make_request del: sent_id.simps upt_Suc)
qed

lemma length_make_requests: "length (make_requests c calls) = length calls"
  by (induction calls arbitrary: c) (simp_all add: Let_def)

section \<open>The request identifier\<close>

text \<open>
  Claim C1. On a client fresh from \<^verbatim>\<open>__init__\<close>, whatever the methods, the parameters
  and the outcomes of the exchanges, the k-th call of \<^verbatim>\<open>_make_request\<close> posts the request
  id k: the ids of N calls are 1, 2, ..., N, so they start at 1, grow by one with each
  call, increase strictly and are never used twice.
\<close>

theorem request_ids_count_up:
  "map sent_id (make_requests (init u) calls) = map (\<lambda>k. Some (int k)) [1..<Suc (length calls)] \<and>
   List.map_filter sent_id (make_requests (init u) calls) = map int [1..<Suc (length calls)] \<and>
   sorted_wrt (<) (List.map_filter sent_id (make_requests (init u) calls)) \<and>
   distinct (List.map_filter sent_id (make_requests (init u) calls))"
proof -
  let ?n = "length calls"
  have "map (\<lambda>k. Some (request_id (init u) + 1 + int k)) [0..<?n] =
        map ((\<lambda>k. Some (int k)) \<circ> Suc) [0..<?n]"
    by (simp add: init_def)
  also have "\<dots> = map (\<lambda>k. Some (int k)) [Suc 0..<Suc ?n]"
    by (simp only: map_Suc_upt [symmetric] map_map)
  finally have ids: "map sent_id (make_requests (init u) calls) =
      map (\<lambda>k. Some (int k)) [1..<Suc ?n]"
    by (simp add: make_requests_ids)
  have "List.map_filter sent_id (make_requests (init u) calls) =
        List.map_filter id (map sent_id (make_requests (init u) calls))"
    by (simp add: map_filter_def comp_def filter_map)
  also have "\<dots> = map int [1..<Suc ?n]"
    unfolding ids by (simp add: map_filter_def comp_def filter_map del: upt_Suc)
  finally have nums: "List.map_filter sent_id (make_requests (init u) calls) =
      map int [1..<Suc ?n]" .
  have "sorted_wrt (<) (map int [1..<Suc ?n])"
    by (simp add: sorted_wrt_map del: upt_Suc) 
  moreover have "distinct (map int [1..<Suc ?n])"
    by (simp add: distinct_map del: upt_Suc)
  ultimately show ?thesis
    using ids nums by simp
qed

text \<open>
  Claim C10. Every operation leaves the client with its request id incremented exactly
  once and with every other field as it was, whatever the exchange does: unreachable
  server, failure status, unreadable body or error envelope. The posted request already
  carries the incremented id, so the increment precedes the POST.
\<close>

theorem only_request_id_changes:
  "client_after (make_request post c method params) = c\<lparr>request_id := request_id c + 1\<rparr> \<and>
   sent_id (sent (make_request post c method params)) = Some (request_id c + 1) \<and>
   client_after (call_tool post c tool_name arguments) = c\<lparr>request_id := request_id c + 1\<rparr> \<and>
   client_after (list_environments post c b) = c\<lparr>request_id := request_id c + 1\<rparr> \<and>
   client_after (get_environment_names post c b) = c\<lparr>request_id := request_id c + 1\<rparr> \<and>
   client_after (get_default_environment post c) = c\<lparr>request_id := request_id c + 1\<rparr> \<and>
   client_after (get_environment_info post c env_name) = c\<lparr>request_id := request_id c + 1\<rparr>"
  by (simp only: make_request_client_after call_tool_client_after
      list_environments_client_after get_environment_names_client_after
      get_default_environment_client_after get_environment_info_client_after
      sent_id_make_request simp_thms)

section \<open>The request on the wire\<close>


section \<open>The response envelope\<close>

text \<open>
  Claim C2. After a successful HTTP exchange whose body parses to an envelope,
  \<^verbatim>\<open>call_tool\<close> fails with the protocol error exactly when the envelope has an
  \<^verbatim>\<open>error\<close> member, and the exception then carries the server's error payload after the
  text \<^verbatim>\<open>MCP Error: \<close>; without an \<^verbatim>\<open>error\<close> member the \<^verbatim>\<open>result\<close> member is returned
  unchanged.
\<close>

theorem call_tool_protocol_error:
  assumes "envelope_of (post (sent (call_tool post c tool_name arguments))) = Some kvs"
  shows "(failure_of (returned (call_tool post c tool_name arguments)) = Some ProtocolError
            \<longleftrightarrow> map_of kvs ''error'' \<noteq> None) \<and>
         (\<forall>payload. map_of kvs ''error'' = Some payload \<longrightarrow>
            returned (call_tool post c tool_name arguments) =
              Inl (PyException [Lit ''MCP Error: '', Fmt payload])) \<and>
         (\<forall>v. map_of kvs ''error'' = None \<and> map_of kvs ''result'' = Some v \<longrightarrow>
            returned (call_tool post c tool_name arguments) = Inr v)"
proof -
  have "returned (call_tool post c tool_name arguments) = unwrap (JObj kvs)"
    using assms by (rule call_tool_envelope_of)
  then show ?thesis
    by (cases "map_of kvs ''error''") (simp_all add: unwrap_envelope)
qed

text \<open>Scenario 2: the envelope \<^verbatim>\<open>{"error": {"message": "boom"}}\<close>.\<close>

theorem call_tool_boom:
  "envelope_of ((\<lambda>_. Response 200 (Some (JObj [(''error'', JObj [(''message'', JStr ''boom'')])])))
     (sent (call_tool (\<lambda>_. Response 200 (Some (JObj [(''error'', JObj [(''message'', JStr ''boom'')])])))
        (init default_server_url) ''list_environments'' None))) =
     Some [(''error'', JObj [(''message'', JStr ''boom'')])] \<and>
   returned (call_tool (\<lambda>_. Response 200 (Some (JObj [(''error'', JObj [(''message'', JStr ''boom'')])])))
       (init default_server_url) ''list_environments'' None) =
     Inl (PyException [Lit ''MCP Error: '', Fmt (JObj [(''message'', JStr ''boom'')])]) \<and>
   failure_of (returned (call_tool (\<lambda>_. Response 200 (Some (JObj [(''error'', JObj [(''message'', JStr ''boom'')])])))
       (init default_server_url) ''list_environments'' None)) = Some ProtocolError"
  using call_tool_protocol_error
    [of "\<lambda>_. Response 200 (Some (JObj [(''error'', JObj [(''message'', JStr ''boom'')])]))"
        "init default_server_url" "''list_environments''" None
        "[(''error'', JObj [(''message'', JStr ''boom'')])]"]
  by simp

text \<open>
  Claim C9. After a successful HTTP exchange whose envelope has neither an \<^verbatim>\<open>error\<close> nor
  a \<^verbatim>\<open>result\<close> member, \<^verbatim>\<open>call_tool\<close> returns \<^verbatim>\<open>None\<close> and raises nothing.
\<close>

theorem call_tool_without_result:
  assumes "envelope_of (post (sent (call_tool post c tool_name arguments))) = Some kvs"
    and "map_of kvs ''error'' = None"
    and "map_of kvs ''result'' = None"
  shows "returned (call_tool post c tool_name arguments) = Inr JNull"
proof -
  have "returned (call_tool post c tool_name arguments) = unwrap (JObj kvs)"
    using assms(1) by (rule call_tool_envelope_of)
  with assms(2,3) show ?thesis
    by (simp add: unwrap_envelope)
qed

text \<open>An envelope with only the protocol version and the id.\<close>

theorem call_tool_empty_envelope:
  "envelope_of ((\<lambda>_. Response 200 (Some (JObj [(''jsonrpc'', JStr ''2.0''), (''id'', JInt 1)])))
     (sent (call_tool (\<lambda>_. Response 200 (Some (JObj [(''jsonrpc'', JStr ''2.0''), (''id'', JInt 1)])))
        (init default_server_url) ''list_environments'' None))) =
     Some [(''jsonrpc'', JStr ''2.0''), (''id'', JInt 1)] \<and>
   returned (call_tool (\<lambda>_. Response 200 (Some (JObj [(''jsonrpc'', JStr ''2.0''), (''id'', JInt 1)])))
       (init default_server_url) ''list_environments'' None) = Inr JNull"
  using call_tool_without_result
    [of "\<lambda>_. Response 200 (Some (JObj [(''jsonrpc'', JStr ''2.0''), (''id'', JInt 1)]))"
        "init default_server_url" "''list_environments''" None
        "[(''jsonrpc'', JStr ''2.0''), (''id'', JInt 1)]"]
  by simp

lemma get_environment_info_listing:
  assumes "delivers (post (sent (get_environment_info post c env_name))) listing"
    and "environments_of listing = Some envs"
  shows "returned (get_environment_info post c env_name) =
     (case find (\<lambda>env. name_of env = Some (JStr env_name)) envs of
        None \<Rightarrow> Inl (ValueError (not_found env_name))
      | Some env \<Rightarrow> Inr env)"
proof -
  have "returned (list_environments post c True) = Inr listing"
    using assms(1) by (simp add: get_environment_info_sent list_environments_delivers)
  then show ?thesis
    using environments_ofD [OF assms(2)]
    by (simp add: get_environment_info_returned find_env_named)
qed

lemma get_environment_names_listing:
  assumes "delivers (post (sent (get_environment_names post c b))) listing"
    and "environments_of listing = Some envs"
  shows "returned (get_environment_names post c b) = Inr (map (\<lambda>env. the (name_of env)) envs)"
proof -
  have "returned (list_environments post c b) = Inr listing"
    using assms(1) by (simp add: get_environment_names_sent list_environments_delivers)
  then show ?thesis
    using environments_ofD [OF assms(2)]
    by (simp add: get_environment_names_returned names_of_named)
qed

lemma sublist_not_found: "sublist env_name (not_found env_name)"
  unfolding not_found_def sublist_def by (metis append.assoc)

lemma find_Some_split:
  "find P xs = Some x \<Longrightarrow>
   \<exists>before after. xs = before @ x # after \<and> P x \<and> (\<forall>y \<in> set before. \<not> P y)"
proof (induction xs)
  case Nil
  then show ?case by simp
next
  case (Cons a xs)
  show ?case
  proof (cases "P a")
    case True
    with Cons.prems have "a = x" by simp
    with True have "a # xs = [] @ x # xs \<and> P x \<and> (\<forall>y \<in> set []. \<not> P y)" by simp
    then show ?thesis by blast
  next
    case False
    with Cons.prems have "find P xs = Some x" by simp
    then obtain before after where
      "xs = before @ x # after" "P x" "\<forall>y \<in> set before. \<not> P y"
      using Cons.IH by blast
    with False have "a # xs = (a # before) @ x # after \<and> P x \<and> (\<forall>y \<in> set (a # before). \<not> P y)"
      by simp
    then show ?thesis by blast
  qed
qed

lemma find_exists:
  "\<exists>x \<in> set xs. P x \<Longrightarrow> \<exists>x. find P xs = Some x"
  by (cases "find P xs") (auto simp add: find_None_iff)

lemma stub_delivers: "delivers (stub result req) result"
  by (simp add: stub_def delivers_def)

lemma name_of_descriptor: "name_of (descriptor name status is_default) = Some (JStr name)"
  by (simp add: descriptor_def)

lemma environments_of_full_listing:
  "environments_of full_listing =
     Some [descriptor ''dev'' ''enabled'' False,
           descriptor ''prod'' ''enabled'' True,
           descriptor ''uat'' ''disabled'' False]"
  by (simp add: full_listing_def name_of_descriptor)


section \<open>Queries on the listing\<close>

text \<open>
  Claim C3. \<^verbatim>\<open>get_environment_info\<close> posts the request of
  \<^verbatim>\<open>list_environments(include_disabled=True)\<close>. When the exchange delivers a listing and
  the name occurs among its descriptors, the operation returns the first descriptor, in
  the order of the listing, whose name equals the argument: no descriptor before it has
  that name, and the name of the returned descriptor is the argument.
\<close>

theorem get_environment_info_first_match:
  assumes "delivers (post (sent (get_environment_info post c env_name))) listing"
    and "environments_of listing = Some envs"
    and "\<exists>env \<in> set envs. name_of env = Some (JStr env_name)"
  shows "\<exists>before env after.
           envs = before @ env # after \<and>
           (\<forall>other \<in> set before. name_of other \<noteq> Some (JStr env_name)) \<and>
           name_of env = Some (JStr env_name) \<and>
           returned (get_environment_info post c env_name) = Inr env \<and>
           sent (get_environment_info post c env_name) = sent (list_environments post c True)"
proof -
  let ?P = "\<lambda>env. name_of env = Some (JStr env_name)"
  from assms(3) obtain env where found: "find ?P envs = Some env"
    using find_exists [of envs ?P] by blast
  then obtain before after where
    split: "envs = before @ env # after" "?P env" "\<forall>other \<in> set before. \<not> ?P other"
    using find_Some_split [of ?P envs env] by blast
  have "returned (get_environment_info post c env_name) = Inr env"
    using get_environment_info_listing [of post c env_name listing envs] assms(1,2) found
    by simp
  moreover have "sent (get_environment_info post c env_name) = sent (list_environments post c True)"
    by (rule get_environment_info_sent)
  ultimately show ?thesis
    using split by blast
qed

text \<open>
  Claim C4. When the exchange delivers a listing, \<^verbatim>\<open>get_environment_info\<close> fails with the
  not-found error exactly when no descriptor of the listing has the requested name; the
  error is the \<^verbatim>\<open>ValueError\<close> whose message contains the requested name.
\<close>

theorem get_environment_info_not_found:
  assumes "delivers (post (sent (get_environment_info post c env_name))) listing"
    and "environments_of listing = Some envs"
  shows "(failure_of (returned (get_environment_info post c env_name)) = Some NotFoundError
            \<longleftrightarrow> (\<forall>env \<in> set envs. name_of env \<noteq> Some (JStr env_name))) \<and>
         ((\<forall>env \<in> set envs. name_of env \<noteq> Some (JStr env_name)) \<longrightarrow>
            returned (get_environment_info post c env_name) =
              Inl (ValueError (not_found env_name))) \<and>
         sublist env_name (not_found env_name)"
proof -
  let ?P = "\<lambda>env. name_of env = Some (JStr env_name)"
  have r: "returned (get_environment_info post c env_name) =
     (case find ?P envs of None \<Rightarrow> Inl (ValueError (not_found env_name)) | Some env \<Rightarrow> Inr env)"
    using assms by (rule get_environment_info_listing)
  have n: "find ?P envs = None \<longleftrightarrow> (\<forall>env \<in> set envs. \<not> ?P env)"
    by (simp add: find_None_iff Ball_def)
  show ?thesis
  proof (cases "find ?P envs")
    case None
    with r n show ?thesis by (simp add: sublist_not_found)
  next
    case (Some env)
    with r n show ?thesis by (simp add: sublist_not_found)
  qed
qed

text \<open>
  Claim C6. When the exchange delivers a listing, \<^verbatim>\<open>get_environment_names\<close> returns the
  names of its descriptors, one for each descriptor and in the order of the listing.
\<close>

theorem get_environment_names_in_order:
  assumes "delivers (post (sent (get_environment_names post c b))) listing"
    and "environments_of listing = Some envs"
  shows "returned (get_environment_names post c b) = Inr (map (\<lambda>env. the (name_of env)) envs)"
  using assms by (rule get_environment_names_listing)

section \<open>The queries against the stub server\<close>

text \<open>Scenario 4: the disabled environment \<^verbatim>\<open>uat\<close> is found by name in the full listing.\<close>

theorem get_environment_info_uat:
  "delivers (stub full_listing (sent (get_environment_info (stub full_listing)
       (init default_server_url) ''uat''))) full_listing \<and>
   environments_of full_listing =
     Some [descriptor ''dev'' ''enabled'' False, descriptor ''prod'' ''enabled'' True,
           descriptor ''uat'' ''disabled'' False] \<and>
   (\<exists>before env after.
      [descriptor ''dev'' ''enabled'' False, descriptor ''prod'' ''enabled'' True,
       descriptor ''uat'' ''disabled'' False] = before @ env # after \<and>
      (\<forall>other \<in> set before. name_of other \<noteq> Some (JStr ''uat'')) \<and>
      name_of env = Some (JStr ''uat'') \<and>
      returned (get_environment_info (stub full_listing) (init default_server_url) ''uat'') = Inr env \<and>
      sent (get_environment_info (stub full_listing) (init default_server_url) ''uat'') =
        sent (list_environments (stub full_listing) (init default_server_url) True))"
  using get_environment_info_first_match
    [of "stub full_listing" "init default_server_url" "''uat''" full_listing
        "[descriptor ''dev'' ''enabled'' False, descriptor ''prod'' ''enabled'' True,
          descriptor ''uat'' ''disabled'' False]"]
  by (simp add: stub_delivers environments_of_full_listing name_of_descriptor)

text \<open>Scenario 5: no environment of the full listing is called \<^verbatim>\<open>missing\<close>.\<close>

theorem get_environment_info_missing:
  "delivers (stub full_listing (sent (get_environment_info (stub full_listing)
       (init default_server_url) ''missing''))) full_listing \<and>
   environments_of full_listing =
     Some [descriptor ''dev'' ''enabled'' False, descriptor ''prod'' ''enabled'' True,
           descriptor ''uat'' ''disabled'' False] \<and>
   failure_of (returned (get_environment_info (stub full_listing)
       (init default_server_url) ''missing'')) = Some NotFoundError \<and>
   returned (get_environment_info (stub full_listing) (init default_server_url) ''missing'') =
     Inl (ValueError (not_found ''missing''))"
  using get_environment_info_not_found
    [of "stub full_listing" "init default_server_url" "''missing''" full_listing
        "[descriptor ''dev'' ''enabled'' False, descriptor ''prod'' ''enabled'' True,
          descriptor ''uat'' ''disabled'' False]"]
  by (simp add: stub_delivers environments_of_full_listing name_of_descriptor)

text \<open>The names of the full listing, in its order.\<close>

theorem get_environment_names_full_listing:
  "delivers (stub full_listing (sent (get_environment_names (stub full_listing)
       (init default_server_url) True))) full_listing \<and>
   environments_of full_listing =
     Some [descriptor ''dev'' ''enabled'' False, descriptor ''prod'' ''enabled'' True,
           descriptor ''uat'' ''disabled'' False] \<and>
   returned (get_environment_names (stub full_listing) (init default_server_url) True) =
     Inr [JStr ''dev'', JStr ''prod'', JStr ''uat'']"
  using get_environment_names_in_order
    [of "stub full_listing" "init default_server_url" True full_listing
        "[descriptor ''dev'' ''enabled'' False, descriptor ''prod'' ''enabled'' True,
          descriptor ''uat'' ''disabled'' False]"]
  by (simp add: stub_delivers environments_of_full_listing name_of_descriptor)


lemma get_environment_info_raises:
  "returned (list_environments post c True) = Inl e \<Longrightarrow>
   returned (get_environment_info post c env_name) = Inl e"
  by (simp add: get_environment_info_returned)

lemma list_environments_envelope_of:
  assumes "envelope_of (post (sent (list_environments post c b))) = Some kvs"
  shows "returned (list_environments post c b) = unwrap (JObj kvs)"
  using assms call_tool_envelope_of [of post c "''list_environments''"
      "Some [(''include_disabled'', JBool b)]" kvs]
  by (simp add: list_environments_def)

section \<open>The count of the listing\<close>






section \<open>Failures\<close>








lemma envelope_of_no_failure: "envelope_of out = Some kvs \<Longrightarrow> exchange_failure out = None"
  by (cases out rule: envelope_of.cases) (auto split: if_splits)






















end
